theory Spec2Isabelle
  imports Main "HOL-Library.Word" "HOL-Library.Multiset"
begin

unbundle bit_operations_syntax

section \<open>The native engine: src/main.go\<close>

subsection \<open>Values that cross the boundary\<close>

text \<open>
  A Go \<open>string\<close> and a \<open>[]byte\<close> are byte sequences. \<open>model.PermissionFlags\<close> is a Go
  \<open>int\<close>, 64 bits wide on every platform the loader supports. The entry points convert
  their C arguments with \<open>C.GoString\<close> and \<open>C.GoBytes\<close> first; the model starts from the
  converted values.
\<close>

type_synonym byte = "8 word"
type_synonym PermissionFlags = "64 word"

text \<open>
  The flag constants of pdfcpu's \<open>model\<close> package that \<open>buildPermissionMask\<close> reads. The
  package is an external library and its numeric values are not part of the repository, so
  every function that reads them takes the table as a parameter.
\<close>

record model_flags =
  PermissionPrintRev3 :: PermissionFlags
  PermissionExtract :: PermissionFlags
  PermissionModAnnFillForm :: PermissionFlags
  PermissionFillRev3 :: PermissionFlags
  PermissionAssembleRev3 :: PermissionFlags
  PermissionsAll :: PermissionFlags
  PermissionModify :: PermissionFlags
  PermissionsNone :: PermissionFlags

text \<open>The constant block \<open>PermPrint .. PermDefault\<close> (lines 22 to 31).\<close>

definition PermPrint :: string where "PermPrint = ''print''"
definition PermCopy :: string where "PermCopy = ''copy''"
definition PermModify :: string where "PermModify = ''modify''"
definition PermAnnotate :: string where "PermAnnotate = ''annotate''"
definition PermForms :: string where "PermForms = ''forms''"
definition PermAssemble :: string where "PermAssemble = ''assemble''"
definition PermAll :: string where "PermAll = ''all''"
definition PermDefault :: string where "PermDefault = ''default''"

definition vocabulary :: "string list" where
  "vocabulary = [PermPrint, PermCopy, PermModify, PermAnnotate, PermForms, PermAssemble,
                 PermAll, PermDefault]"

subsection \<open>strings.ToLower\<close>

text \<open>
  Go's \<open>strings.ToLower\<close> has a fast path for strings whose bytes are all below
  \<open>utf8.RuneSelf = 0x80\<close>: every byte in \<open>'A'..'Z'\<close> is moved by \<open>'a' - 'A'\<close>, every other
  byte is kept. Any other string goes through the Unicode tables, which are outside the
  repository: that path is the parameter \<open>unicodeLower\<close>.
\<close>

definition lowerByte :: "char \<Rightarrow> char" where
  "lowerByte c =
     (let n = (of_char c :: nat) in if 65 \<le> n \<and> n \<le> 90 then char_of (n + 32) else c)"

definition ToLower :: "(string \<Rightarrow> string) \<Rightarrow> string \<Rightarrow> string" where
  "ToLower unicodeLower s =
     (if list_all (\<lambda>c. (of_char c :: nat) < 128) s then map lowerByte s
      else unicodeLower s)"

subsection \<open>buildPermissionMask\<close>

text \<open>
  One pass of the \<open>switch\<close> inside the loop of \<open>buildPermissionMask\<close> (lines 37 to 55), with
  the cases in the order of the source; a token that matches no case leaves the mask as
  it is. The source's variable \<open>mask\<close> is \<open>acc\<close> here.
\<close>

definition maskStep ::
  "(string \<Rightarrow> string) \<Rightarrow> model_flags \<Rightarrow> PermissionFlags \<Rightarrow> string \<Rightarrow> PermissionFlags" where
  "maskStep unicodeLower fl acc p =
     (let t = ToLower unicodeLower p in
      if t = PermPrint then acc OR PermissionPrintRev3 fl
      else if t = PermCopy then acc OR PermissionExtract fl
      else if t = PermAnnotate then acc OR PermissionModAnnFillForm fl
      else if t = PermForms then acc OR PermissionFillRev3 fl
      else if t = PermAssemble then acc OR PermissionAssembleRev3 fl
      else if t = PermAll then acc OR PermissionsAll fl
      else if t = PermModify then acc OR PermissionModify fl
      else if t = PermDefault then acc OR PermissionsNone fl
      else acc)"

text \<open>The \<open>for _, p := range perms\<close> loop, with the mask (\<open>acc\<close>) as its state.\<close>

fun maskLoop ::
  "(string \<Rightarrow> string) \<Rightarrow> model_flags \<Rightarrow> PermissionFlags \<Rightarrow> string list \<Rightarrow> PermissionFlags" where
  "maskLoop unicodeLower fl acc [] = acc"
| "maskLoop unicodeLower fl acc (p # ps) =
     maskLoop unicodeLower fl (maskStep unicodeLower fl acc p) ps"

definition buildPermissionMask ::
  "(string \<Rightarrow> string) \<Rightarrow> model_flags \<Rightarrow> string list \<Rightarrow> PermissionFlags" where
  "buildPermissionMask unicodeLower fl perms = maskLoop unicodeLower fl 0 perms"

subsection \<open>The encryption configuration\<close>

text \<open>
  The fields of pdfcpu's \<open>model.Configuration\<close> that the two entry points read or write; the
  record is extensible, the extension standing for every other field of the library's type.
\<close>

record Configuration =
  UserPW :: string
  OwnerPW :: string
  EncryptUsingAES :: bool
  EncryptKeyLength :: int
  Permissions :: PermissionFlags

text \<open>
  Modelled from the spec: \<open>model.NewAESConfiguration\<close> is pdfcpu's constructor and is not
  among the sources. The spec describes the configuration as user password, owner password,
  key length and permission mask, built fresh for every call with the library's built-in
  default permissions, and says of the passwords that "an empty owner password at encryption
  time defaults to the user password's value". Nothing under the sources tests the owner
  password, so that sentence is about the library, and the constructor carries it. The
  library's default configuration is the parameter \<open>dflt\<close>.
\<close>

definition NewAESConfiguration ::
  "'z Configuration_scheme \<Rightarrow> string \<Rightarrow> string \<Rightarrow> int \<Rightarrow> 'z Configuration_scheme" where
  "NewAESConfiguration dflt userPW ownerPW keyLength =
     dflt\<lparr>UserPW := userPW, OwnerPW := (if ownerPW = [] then userPW else ownerPW),
          EncryptUsingAES := True, EncryptKeyLength := keyLength\<rparr>"

subsection \<open>EncryptPDF\<close>

text \<open>The flag \<open>setCustomPerms\<close> as lines 86 to 93 compute it.\<close>

definition setCustomPerms :: "(string \<Rightarrow> string) \<Rightarrow> string list \<Rightarrow> bool" where
  "setCustomPerms unicodeLower permissions =
     (if length permissions > 0 then
        (if length permissions = 1 \<and> ToLower unicodeLower (permissions ! 0) = ''default''
         then False else True)
      else False)"

text \<open>The configuration handed to \<open>api.Encrypt\<close> (lines 81 to 97).\<close>

definition EncryptPDF_conf ::
  "(string \<Rightarrow> string) \<Rightarrow> model_flags \<Rightarrow> 'z Configuration_scheme \<Rightarrow> string \<Rightarrow> string \<Rightarrow>
   string list \<Rightarrow> 'z Configuration_scheme" where
  "EncryptPDF_conf unicodeLower fl dflt userPw ownerPw permissions =
     (let keyLength = 256;
          conf = NewAESConfiguration dflt userPw ownerPw keyLength
      in if setCustomPerms unicodeLower permissions
         then conf\<lparr>Permissions := buildPermissionMask unicodeLower fl permissions\<rparr>
         else conf)"

text \<open>
  The whole entry point. External to the repository and therefore parameters:
  \<^item> \<open>Unmarshal\<close>, Go's \<open>json.Unmarshal\<close> into a \<open>[]string\<close>: from the JSON text and the
    destination's current value it gives the destination's new value and the error it
    returns (\<open>None\<close> for \<open>nil\<close>). The source declares the destination \<open>nil\<close> and drops the
    error.
  \<^item> \<open>Encrypt\<close>, pdfcpu's \<open>api.Encrypt\<close>: the error's text, or the bytes written to \<open>buf\<close>.
  \<^item> \<open>b64\<close>, \<open>base64.StdEncoding\<close>.
\<close>

definition EncryptPDF ::
  "(string \<Rightarrow> string list \<Rightarrow> string list \<times> string option) \<Rightarrow> (string \<Rightarrow> string) \<Rightarrow>
   model_flags \<Rightarrow> 'z Configuration_scheme \<Rightarrow>
   (byte list \<Rightarrow> 'z Configuration_scheme \<Rightarrow> string + byte list) \<Rightarrow> (byte list \<Rightarrow> string) \<Rightarrow>
   byte list \<Rightarrow> string \<Rightarrow> string \<Rightarrow> string \<Rightarrow> string" where
  "EncryptPDF Unmarshal unicodeLower fl dflt Encrypt b64 pdfBytes userPw ownerPw permissionsJSON =
     (let permissions = fst (Unmarshal permissionsJSON []);
          conf = EncryptPDF_conf unicodeLower fl dflt userPw ownerPw permissions
      in case Encrypt pdfBytes conf of
           Inl err \<Rightarrow> ''Error encrypting PDF: '' @ err
         | Inr encodedOutput \<Rightarrow> b64 encodedOutput)"

subsection \<open>DecryptPDF\<close>

text \<open>
  \<open>api.Decrypt\<close> receives a reader over the bytes and a pointer to the configuration, which
  it may change; the parameter \<open>Decrypt\<close> returns the configuration as the call left it,
  together with the error's text or the bytes written to \<open>buf\<close>. The run records every call
  of \<open>api.Decrypt\<close>, in order, with the arguments it was given, and the value of \<open>err\<close> and
  \<open>buf\<close> when line 144 is reached.
\<close>

definition DecryptPDF_run ::
  "(byte list \<Rightarrow> 'z Configuration_scheme \<Rightarrow> 'z Configuration_scheme \<times> (string + byte list)) \<Rightarrow>
   'z Configuration_scheme \<Rightarrow> byte list \<Rightarrow> string \<Rightarrow> string \<Rightarrow>
   (byte list \<times> 'z Configuration_scheme) list \<times> (string + byte list)" where
  "DecryptPDF_run Decrypt dflt pdfBytes password ownerPw =
     (let conf = dflt\<lparr>UserPW := password, OwnerPW := password\<rparr>;
          (conf1, err) = Decrypt pdfBytes conf
      in if isl err \<and> ownerPw \<noteq> [] \<and> ownerPw \<noteq> password then
           (let conf2 = conf1\<lparr>UserPW := ownerPw, OwnerPW := ownerPw\<rparr>;
                (conf3, err2) = Decrypt pdfBytes conf2
            in ([(pdfBytes, conf), (pdfBytes, conf2)], err2))
         else ([(pdfBytes, conf)], err))"

definition DecryptPDF ::
  "(byte list \<Rightarrow> 'z Configuration_scheme \<Rightarrow> 'z Configuration_scheme \<times> (string + byte list)) \<Rightarrow>
   (byte list \<Rightarrow> string) \<Rightarrow> 'z Configuration_scheme \<Rightarrow> byte list \<Rightarrow> string \<Rightarrow> string \<Rightarrow>
   string" where
  "DecryptPDF Decrypt b64 dflt pdfBytes password ownerPw =
     (case snd (DecryptPDF_run Decrypt dflt pdfBytes password ownerPw) of
        Inl err \<Rightarrow> ''Error decrypting PDF: '' @ err
      | Inr encodedOutput \<Rightarrow> b64 encodedOutput)"

section \<open>The loader and the wrapper: index.js\<close>

text \<open>A raised JavaScript \<open>Error\<close>, with its message.\<close>

datatype JsError = Error string

definition PDFPermission_DEFAULT :: string where "PDFPermission_DEFAULT = ''default''"

text \<open>\<open>String.prototype.startsWith\<close> with one argument.\<close>

definition startsWith :: "string \<Rightarrow> string \<Rightarrow> bool" where
  "startsWith s searchString = (take (length searchString) s = searchString)"

text \<open>
  \<open>getLibraryPath\<close>, from \<open>process.platform\<close> and \<open>process.arch\<close>. Node's \<open>path.resolve\<close> and
  the module's \<open>__dirname\<close> are parameters.
\<close>

definition getLibraryPath ::
  "(string \<Rightarrow> string \<Rightarrow> string \<Rightarrow> string) \<Rightarrow> string \<Rightarrow> string \<Rightarrow> string \<Rightarrow> JsError + string" where
  "getLibraryPath resolve dirname platform arch =
     (if platform = ''linux'' \<and> arch = ''x64'' then
        Inr (resolve dirname ''lib'' ''pdfencrypt_linux.so'')
      else if platform = ''darwin'' then
        Inr (resolve dirname ''lib''
              (if arch = ''arm64'' then ''pdfencrypt_darwin_arm64.dylib''
               else ''pdfencrypt_darwin_x64.dylib''))
      else if platform = ''win32'' \<and> arch = ''x64'' then
        Inr (resolve dirname ''lib'' ''pdfencrypt_win_x64.dll'')
      else Inl (Error (''Unsupported platform/architecture: '' @ platform @ ''/'' @ arch)))"

text \<open>
  The arguments \<open>encryptPDF\<close> passes to the bound native function (lines 68 to 83). An
  argument the caller leaves out (\<open>undefined\<close>) is \<open>None\<close>: the default of a JavaScript
  parameter is taken then and only then. \<open>JSON.stringify\<close> is a parameter.
\<close>

definition encryptPDF_call ::
  "(string list \<Rightarrow> string) \<Rightarrow> byte list \<Rightarrow> string \<Rightarrow> string option \<Rightarrow> string list option \<Rightarrow>
   byte list \<times> nat \<times> string \<times> string \<times> string" where
  "encryptPDF_call stringify pdfBuffer userPassword ownerPasswordArg permissionsArg =
     (let ownerPassword = (case ownerPasswordArg of None \<Rightarrow> userPassword | Some ow \<Rightarrow> ow);
          permissions = (case permissionsArg of None \<Rightarrow> [PDFPermission_DEFAULT] | Some ps \<Rightarrow> ps);
          permissionsJSON = stringify permissions
      in (pdfBuffer, length pdfBuffer, userPassword, ownerPassword, permissionsJSON))"

text \<open>
  What both wrappers do with the text the native call returned (lines 85 to 100 and 129 to
  144). The bound function gives \<open>null\<close> (\<open>None\<close>) or a string; \<open>!encodedOutput\<close> holds for
  \<open>null\<close> and for the empty string. \<open>Buffer.from(_, 'base64')\<close> is the parameter
  \<open>fromBase64\<close>. The \<open>catch\<close> block logs and rethrows the same error, and the \<open>console\<close>
  output is not part of the result.
\<close>

definition decodeOutput ::
  "string \<Rightarrow> (string \<Rightarrow> byte list) \<Rightarrow> string option \<Rightarrow> JsError + byte list" where
  "decodeOutput nullMessage fromBase64 encodedOutput =
     (case encodedOutput of
        None \<Rightarrow> Inl (Error nullMessage)
      | Some s \<Rightarrow>
          if s = [] then Inl (Error nullMessage)
          else if startsWith s ''Error'' then Inl (Error s)
          else Inr (fromBase64 s))"

definition encryptPDF ::
  "(byte list \<Rightarrow> nat \<Rightarrow> string \<Rightarrow> string \<Rightarrow> string \<Rightarrow> string option) \<Rightarrow> (string list \<Rightarrow> string) \<Rightarrow>
   (string \<Rightarrow> byte list) \<Rightarrow> byte list \<Rightarrow> string \<Rightarrow> string option \<Rightarrow> string list option \<Rightarrow>
   JsError + byte list" where
  "encryptPDF nativeEncryptPDF stringify fromBase64 pdfBuffer userPassword ownerPasswordArg
     permissionsArg =
     (case encryptPDF_call stringify pdfBuffer userPassword ownerPasswordArg permissionsArg of
        (buf, len, userPw, ownerPw, permissionsJSON) \<Rightarrow>
          decodeOutput ''Encryption returned null'' fromBase64
            (nativeEncryptPDF buf len userPw ownerPw permissionsJSON))"

definition decryptPDF ::
  "(byte list \<Rightarrow> nat \<Rightarrow> string \<Rightarrow> string \<Rightarrow> string option) \<Rightarrow> (string \<Rightarrow> byte list) \<Rightarrow>
   byte list \<Rightarrow> string \<Rightarrow> string option \<Rightarrow> JsError + byte list" where
  "decryptPDF nativeDecryptPDF fromBase64 pdfBuffer password ownerPasswordArg =
     (let ownerPassword = (case ownerPasswordArg of None \<Rightarrow> [] | Some ow \<Rightarrow> ow)
      in decodeOutput ''Decryption returned null'' fromBase64
           (nativeDecryptPDF pdfBuffer (length pdfBuffer) password ownerPassword))"

section \<open>Sample values for the external parts\<close>

text \<open>
  Concrete stand-ins for the library parameters, used only to run the theorems below on
  explicit inputs: a flag table with the bit positions of the PDF standard and an all-zero
  \<open>PermissionsNone\<close>, and a default configuration.
\<close>

abbreviation sample_flags :: model_flags where
  "sample_flags \<equiv>
     \<lparr>PermissionPrintRev3 = 2048, PermissionExtract = 16, PermissionModAnnFillForm = 32,
      PermissionFillRev3 = 256, PermissionAssembleRev3 = 1024, PermissionsAll = 3900,
      PermissionModify = 8, PermissionsNone = 0\<rparr>"

abbreviation sample_conf :: Configuration where
  "sample_conf \<equiv>
     \<lparr>UserPW = [], OwnerPW = [], EncryptUsingAES = False, EncryptKeyLength = 0,
      Permissions = 0\<rparr>"

text \<open>
  A stand-in for \<open>api.Decrypt\<close>: it opens the document when either password of the
  configuration is the secret, and otherwise fails with a message that names the password
  it was given; it leaves the configuration as it found it.
\<close>

abbreviation sample_Decrypt ::
  "string \<Rightarrow> byte list \<Rightarrow> Configuration \<Rightarrow> Configuration \<times> (string + byte list)" where
  "sample_Decrypt secret \<equiv>
     (\<lambda>b c. (c, if UserPW c = secret \<or> OwnerPW c = secret then Inr b
                 else Inl (''wrong password: '' @ UserPW c)))"

text \<open>
  What Go's \<open>json.Unmarshal\<close> leaves in a \<open>nil\<close> slice of strings, and the error it returns,
  on the texts used below. An array of strings decodes without error. For a value of the
  wrong type inside an array the decoder records an \<open>UnmarshalTypeError\<close>, leaves that element
  at its zero value and goes on with the rest, as the package documents ("skips that field
  and completes the unmarshaling as best it can"). A text that is not JSON is rejected before
  anything is stored; the last case stands for those.
\<close>

abbreviation sample_Unmarshal :: "string \<Rightarrow> string list \<Rightarrow> string list \<times> string option" where
  "sample_Unmarshal \<equiv>
     (\<lambda>j dst.
        if j = ''[\"print\",\"copy\"]'' then ([''print'', ''copy''], None)
        else if j = ''[\"print\",5]'' then
          ([''print'', ''''], Some ''json: cannot unmarshal number into Go value of type string'')
        else (dst, Some ''unexpected end of JSON input''))"

text \<open>
  Stand-ins for \<open>api.Encrypt\<close> and for the Base64 encoder: the first fails on an empty
  input and otherwise appends one byte that tells whether the configuration still has the
  default permission mask; the second maps bytes to letters.
\<close>

abbreviation sample_Encrypt :: "byte list \<Rightarrow> Configuration \<Rightarrow> string + byte list" where
  "sample_Encrypt \<equiv>
     (\<lambda>b c. if b = [] then Inl ''empty input''
            else Inr (b @ [if Permissions c = Permissions sample_conf then 0 else 1]))"

abbreviation sample_b64 :: "byte list \<Rightarrow> string" where
  "sample_b64 \<equiv> map (\<lambda>b. if b = 0 then CHR ''A'' else CHR ''B'')"

text \<open>What \<open>JSON.stringify\<close> gives on the permission lists used below.\<close>

abbreviation sample_stringify :: "string list \<Rightarrow> string" where
  "sample_stringify \<equiv>
     (\<lambda>ps. if ps = [''default''] then ''[\"default\"]''
           else if ps = [''print'', ''copy''] then ''[\"print\",\"copy\"]''
           else ''[]'')"

text \<open>
  Stand-ins for \<open>Buffer.from(_, 'base64')\<close>, the inverse of the encoder stand-in on its
  letters, and for \<open>path.resolve\<close> on three segments.
\<close>

abbreviation sample_fromBase64 :: "string \<Rightarrow> byte list" where
  "sample_fromBase64 \<equiv> map (\<lambda>c. if c = CHR ''A'' then 0 else 1)"

abbreviation sample_resolve :: "string \<Rightarrow> string \<Rightarrow> string \<Rightarrow> string" where
  "sample_resolve \<equiv> (\<lambda>a b c. a @ ''/'' @ b @ ''/'' @ c)"

section \<open>Properties of the permission mask builder\<close>

lemmas Perm_defs = PermPrint_def PermCopy_def PermModify_def PermAnnotate_def PermForms_def
  PermAssemble_def PermAll_def PermDefault_def

lemma maskStep_OR: "maskStep ul fl acc p = acc OR maskStep ul fl 0 p"
  by (simp add: maskStep_def Let_def)

lemma maskLoop_OR: "maskLoop ul fl acc ps = acc OR maskLoop ul fl 0 ps"
proof (induction ps arbitrary: acc)
  case Nil
  show ?case by simp
next
  case (Cons p ps)
  have "maskLoop ul fl acc (p # ps) = maskStep ul fl acc p OR maskLoop ul fl 0 ps"
    using Cons.IH [of "maskStep ul fl acc p"] by simp
  also have "\<dots> = acc OR (maskStep ul fl 0 p OR maskLoop ul fl 0 ps)"
    using maskStep_OR [of ul fl acc p] by (simp add: or.assoc)
  also have "maskStep ul fl 0 p OR maskLoop ul fl 0 ps = maskLoop ul fl 0 (p # ps)"
    using Cons.IH [of "maskStep ul fl 0 p"] by simp
  finally show ?case .
qed

lemma build_Nil: "buildPermissionMask ul fl [] = 0"
  by (simp add: buildPermissionMask_def)

lemma build_Cons:
  "buildPermissionMask ul fl (p # ps) = maskStep ul fl 0 p OR buildPermissionMask ul fl ps"
  using maskLoop_OR [of ul fl "maskStep ul fl 0 p" ps] by (simp add: buildPermissionMask_def)

lemma build_append:
  "buildPermissionMask ul fl (xs @ ys) = buildPermissionMask ul fl xs OR buildPermissionMask ul fl ys"
  by (induction xs) (simp_all add: build_Nil build_Cons or.assoc)

lemma bit_build:
  "bit (buildPermissionMask ul fl xs) n \<longleftrightarrow> (\<exists>p\<in>set xs. bit (maskStep ul fl 0 p) n)"
  by (induction xs) (auto simp: build_Nil build_Cons bit_or_iff)

lemma build_image_cong:
  assumes "maskStep ul fl 0 ` set xs = maskStep ul fl 0 ` set ys"
  shows "buildPermissionMask ul fl xs = buildPermissionMask ul fl ys"
proof (rule bit_eqI)
  fix n
  have "(\<exists>p\<in>set xs. bit (maskStep ul fl 0 p) n) \<longleftrightarrow> (\<exists>w\<in>maskStep ul fl 0 ` set xs. bit w n)"
    by blast
  also have "\<dots> \<longleftrightarrow> (\<exists>w\<in>maskStep ul fl 0 ` set ys. bit w n)"
    using assms by simp
  also have "\<dots> \<longleftrightarrow> (\<exists>p\<in>set ys. bit (maskStep ul fl 0 p) n)"
    by blast
  finally show "bit (buildPermissionMask ul fl xs) n \<longleftrightarrow> bit (buildPermissionMask ul fl ys) n"
    by (simp add: bit_build)
qed

lemma maskStep_lower:
  "ToLower ul p = ToLower ul q \<Longrightarrow> maskStep ul fl acc p = maskStep ul fl acc q"
  by (simp add: maskStep_def)

lemma maskStep_unrecognized:
  "ToLower ul p \<notin> set vocabulary \<Longrightarrow> maskStep ul fl acc p = acc"
  by (simp add: maskStep_def vocabulary_def Let_def)

lemma build_filter_vocabulary:
  "buildPermissionMask ul fl (filter (\<lambda>p. ToLower ul p \<in> set vocabulary) xs) =
   buildPermissionMask ul fl xs"
  by (induction xs) (simp_all add: build_Nil build_Cons maskStep_unrecognized)

lemma build_lower_cong:
  "list_all2 (\<lambda>p q. ToLower ul p = ToLower ul q) xs ys \<Longrightarrow>
   buildPermissionMask ul fl xs = buildPermissionMask ul fl ys"
proof (induction xs ys rule: list_all2_induct)
  case Nil
  show ?case by simp
next
  case (Cons p xs q ys)
  then show ?case
    using maskStep_lower [of ul p q fl 0] by (simp add: build_Cons)
qed

lemma build_recognized_cong:
  assumes "ToLower ul ` set xs \<inter> set vocabulary = ToLower ul ` set ys \<inter> set vocabulary"
  shows "buildPermissionMask ul fl xs = buildPermissionMask ul fl ys"
proof -
  let ?R = "\<lambda>p. ToLower ul p \<in> set vocabulary"
  have img: "maskStep ul fl 0 ` set (filter ?R as) \<subseteq> maskStep ul fl 0 ` set (filter ?R bs)"
    if "ToLower ul ` set as \<inter> set vocabulary \<subseteq> ToLower ul ` set bs \<inter> set vocabulary"
    for as bs
  proof
    fix w assume "w \<in> maskStep ul fl 0 ` set (filter ?R as)"
    then obtain p where p: "p \<in> set as" "?R p" "w = maskStep ul fl 0 p" by auto
    then have "ToLower ul p \<in> ToLower ul ` set bs \<inter> set vocabulary" using that by blast
    then obtain q where q: "q \<in> set bs" "ToLower ul q = ToLower ul p" by auto
    then have "?R q" using p by simp
    moreover have "w = maskStep ul fl 0 q" using p q maskStep_lower [of ul q p fl 0] by simp
    ultimately show "w \<in> maskStep ul fl 0 ` set (filter ?R bs)" using q by auto
  qed
  have "maskStep ul fl 0 ` set (filter ?R xs) = maskStep ul fl 0 ` set (filter ?R ys)"
    using img [of xs ys] img [of ys xs] assms by auto
  then have "buildPermissionMask ul fl (filter ?R xs) = buildPermissionMask ul fl (filter ?R ys)"
    by (rule build_image_cong)
  then show ?thesis by (simp add: build_filter_vocabulary)
qed

lemma ToLower_vocab:
  "ToLower ul ''print'' = ''print''" "ToLower ul ''copy'' = ''copy''"
  "ToLower ul ''all'' = ''all''" "ToLower ul ''default'' = ''default''"
  by (simp_all add: ToLower_def lowerByte_def)

lemmas ToLower_eval = ToLower_def lowerByte_def char_of_def bit_iff_odd

text \<open>
  Claim C3. The mask of \<open>["print","copy"]\<close> is the bitwise OR of the print flag and the
  copy flag and nothing else; the mask of \<open>["all"]\<close> is the all-permissions flag value; the
  mask of the empty list, and of a list whose tokens are all outside the vocabulary, is zero;
  the token \<open>"default"\<close> contributes the library's no-permissions flag value
  \<open>PermissionsNone\<close>, wherever it stands in the list. The numeric value of that library
  constant is not in the repository: where it is the all-zero value the spec describes, the
  token contributes no bit at all.
\<close>

theorem buildPermissionMask_values:
  "buildPermissionMask ul fl [''print'', ''copy''] = PermissionPrintRev3 fl OR PermissionExtract fl
   \<and> buildPermissionMask ul fl [''all''] = PermissionsAll fl
   \<and> buildPermissionMask ul fl [] = 0
   \<and> ((\<forall>p\<in>set perms. ToLower ul p \<notin> set vocabulary) \<longrightarrow> buildPermissionMask ul fl perms = 0)
   \<and> buildPermissionMask ul fl [''default''] = PermissionsNone fl
   \<and> buildPermissionMask ul fl (xs @ [''default''] @ ys) =
       buildPermissionMask ul fl (xs @ ys) OR PermissionsNone fl
   \<and> (PermissionsNone fl = 0 \<longrightarrow>
        buildPermissionMask ul fl [''default''] = 0
        \<and> buildPermissionMask ul fl (xs @ [''default''] @ ys) = buildPermissionMask ul fl (xs @ ys))"
proof -
  have pc: "buildPermissionMask ul fl [''print'', ''copy''] =
            PermissionPrintRev3 fl OR PermissionExtract fl"
    by (simp add: build_Cons build_Nil maskStep_def ToLower_vocab Perm_defs)
  have al: "buildPermissionMask ul fl [''all''] = PermissionsAll fl"
    by (simp add: build_Cons build_Nil maskStep_def ToLower_vocab Perm_defs)
  have un: "buildPermissionMask ul fl perms = 0" if "\<forall>p\<in>set perms. ToLower ul p \<notin> set vocabulary"
    using that by (induction perms) (simp_all add: build_Nil build_Cons maskStep_unrecognized)
  have df: "buildPermissionMask ul fl [''default''] = PermissionsNone fl"
    by (simp add: build_Cons build_Nil maskStep_def ToLower_vocab Perm_defs)
  have mid: "buildPermissionMask ul fl (xs @ [''default''] @ ys) =
             buildPermissionMask ul fl (xs @ ys) OR PermissionsNone fl"
  proof -
    have "buildPermissionMask ul fl (''default'' # ys) =
          PermissionsNone fl OR buildPermissionMask ul fl ys"
      by (simp add: build_Cons maskStep_def ToLower_vocab Perm_defs)
    then show ?thesis
      by (simp add: build_append or.assoc or.commute or.left_commute)
  qed
  show ?thesis
    using pc al un df mid by (simp add: build_Nil)
qed

text \<open>The theorem of C3 on the sample flag table, every hypothesis discharged.\<close>

theorem buildPermissionMask_values_witness:
  "buildPermissionMask (\<lambda>s. s) sample_flags [''print'', ''copy''] = 2064
   \<and> buildPermissionMask (\<lambda>s. s) sample_flags [''all''] = 3900
   \<and> list_all (\<lambda>p. ToLower (\<lambda>s. s) p \<notin> set vocabulary) [''hi_res_print'', ''accessibility'']
   \<and> buildPermissionMask (\<lambda>s. s) sample_flags [''hi_res_print'', ''accessibility''] = 0
   \<and> PermissionsNone sample_flags = 0
   \<and> buildPermissionMask (\<lambda>s. s) sample_flags [''default''] = 0
   \<and> buildPermissionMask (\<lambda>s. s) sample_flags ([''print''] @ [''default''] @ [''copy'']) = 2064"
proof -
  have h: "\<forall>p\<in>set [''hi_res_print'', ''accessibility'']. ToLower (\<lambda>s. s) p \<notin> set vocabulary"
    by (simp add: ToLower_eval vocabulary_def Perm_defs)
  have z: "PermissionsNone sample_flags = 0" by simp
  note t = buildPermissionMask_values [of "\<lambda>s. s" sample_flags
      "[''hi_res_print'', ''accessibility'']" "[''print'']" "[''copy'']"]
  have a: "buildPermissionMask (\<lambda>s. s) sample_flags [''print'', ''copy''] = 2064"
    using t by simp
  have b: "buildPermissionMask (\<lambda>s. s) sample_flags [''all''] = 3900"
    using t by simp
  have c: "buildPermissionMask (\<lambda>s. s) sample_flags [''hi_res_print'', ''accessibility''] = 0"
    using t h by blast
  have d: "buildPermissionMask (\<lambda>s. s) sample_flags [''default''] = 0"
    using t z by simp
  have e: "buildPermissionMask (\<lambda>s. s) sample_flags ([''print''] @ [''default''] @ [''copy'']) =
           buildPermissionMask (\<lambda>s. s) sample_flags ([''print''] @ [''copy''])"
    using t z by blast
  show ?thesis
    using a b c d e h z by (simp add: list_all_iff)
qed

text \<open>
  Claim C7. The mask does not change when the letter case of tokens changes (tokens with the
  same lower-case form under \<open>strings.ToLower\<close>, position by position), when the list is
  permuted, when a token is duplicated (more generally, when the set of tokens is the same),
  or when tokens outside the vocabulary are inserted or removed. All of it follows from the
  last conjunct: the mask depends only on the set of recognised lower-case forms.
\<close>

theorem buildPermissionMask_invariant:
  "(list_all2 (\<lambda>p q. ToLower ul p = ToLower ul q) xs ys \<longrightarrow>
      buildPermissionMask ul fl xs = buildPermissionMask ul fl ys)
   \<and> (mset xs = mset ys \<longrightarrow> buildPermissionMask ul fl xs = buildPermissionMask ul fl ys)
   \<and> (set xs = set ys \<longrightarrow> buildPermissionMask ul fl xs = buildPermissionMask ul fl ys)
   \<and> buildPermissionMask ul fl (as @ p # p # bs) = buildPermissionMask ul fl (as @ p # bs)
   \<and> (ToLower ul u \<notin> set vocabulary \<longrightarrow>
        buildPermissionMask ul fl (as @ u # bs) = buildPermissionMask ul fl (as @ bs))
   \<and> buildPermissionMask ul fl (filter (\<lambda>p. ToLower ul p \<in> set vocabulary) xs) =
       buildPermissionMask ul fl xs
   \<and> (ToLower ul ` set xs \<inter> set vocabulary = ToLower ul ` set ys \<inter> set vocabulary \<longrightarrow>
        buildPermissionMask ul fl xs = buildPermissionMask ul fl ys)"
proof -
  have seteq: "buildPermissionMask ul fl cs = buildPermissionMask ul fl ds" if "set cs = set ds"
    for cs ds
    using that by (intro build_image_cong) simp
  have perm: "buildPermissionMask ul fl xs = buildPermissionMask ul fl ys" if "mset xs = mset ys"
    using that seteq [of xs ys] mset_eq_setD by blast
  have dup: "buildPermissionMask ul fl (as @ p # p # bs) = buildPermissionMask ul fl (as @ p # bs)"
    by (rule seteq) auto
  have unk: "buildPermissionMask ul fl (as @ u # bs) = buildPermissionMask ul fl (as @ bs)"
    if "ToLower ul u \<notin> set vocabulary"
    using that by (simp add: build_append build_Cons maskStep_unrecognized)
  show ?thesis
    using build_lower_cong [of ul xs ys fl] perm seteq [of xs ys] dup unk
      build_filter_vocabulary [of ul fl xs] build_recognized_cong [of ul xs ys fl]
    by blast
qed

text \<open>The theorem of C7 on explicit lists: case, order, duplication, an unknown token.\<close>

theorem buildPermissionMask_invariant_witness:
  "list_all2 (\<lambda>p q. ToLower (\<lambda>s. s) p = ToLower (\<lambda>s. s) q) [''PRINT'', ''Copy''] [''print'', ''copy'']
   \<and> buildPermissionMask (\<lambda>s. s) sample_flags [''PRINT'', ''Copy''] = 2064
   \<and> mset [''copy'', ''print''] = mset [''print'', ''copy'']
   \<and> buildPermissionMask (\<lambda>s. s) sample_flags [''copy'', ''print''] = 2064
   \<and> set [''print'', ''copy'', ''print''] = set [''print'', ''copy'']
   \<and> buildPermissionMask (\<lambda>s. s) sample_flags [''print'', ''copy'', ''print''] = 2064
   \<and> ToLower (\<lambda>s. s) ''hi_res_print'' \<notin> set vocabulary
   \<and> buildPermissionMask (\<lambda>s. s) sample_flags ([''print''] @ ''hi_res_print'' # [''copy'']) = 2064"
proof -
  have v: "buildPermissionMask (\<lambda>s. s) sample_flags [''print'', ''copy''] = 2064"
    by (simp add: build_Cons build_Nil maskStep_def ToLower_vocab Perm_defs)
  have h1: "list_all2 (\<lambda>p q. ToLower (\<lambda>s. s) p = ToLower (\<lambda>s. s) q)
              [''PRINT'', ''Copy''] [''print'', ''copy'']"
    by (simp add: ToLower_eval)
  have h2: "mset [''copy'', ''print''] = mset [''print'', ''copy'']" by simp
  have h3: "set [''print'', ''copy'', ''print''] = set [''print'', ''copy'']" by auto
  have h4: "ToLower (\<lambda>s. s) ''hi_res_print'' \<notin> set vocabulary"
    by (simp add: ToLower_eval vocabulary_def Perm_defs)
  have a: "buildPermissionMask (\<lambda>s. s) sample_flags [''PRINT'', ''Copy''] =
           buildPermissionMask (\<lambda>s. s) sample_flags [''print'', ''copy'']"
    using buildPermissionMask_invariant [of "\<lambda>s. s" "[''PRINT'', ''Copy'']" "[''print'', ''copy'']"
        sample_flags] h1 by blast
  have b: "buildPermissionMask (\<lambda>s. s) sample_flags [''copy'', ''print''] =
           buildPermissionMask (\<lambda>s. s) sample_flags [''print'', ''copy'']"
    using buildPermissionMask_invariant [of "\<lambda>s. s" "[''copy'', ''print'']" "[''print'', ''copy'']"
        sample_flags] h2 by blast
  have c: "buildPermissionMask (\<lambda>s. s) sample_flags [''print'', ''copy'', ''print''] =
           buildPermissionMask (\<lambda>s. s) sample_flags [''print'', ''copy'']"
    using buildPermissionMask_invariant [of "\<lambda>s. s" "[''print'', ''copy'', ''print'']"
        "[''print'', ''copy'']" sample_flags] h3 by blast
  have d: "buildPermissionMask (\<lambda>s. s) sample_flags ([''print''] @ ''hi_res_print'' # [''copy'']) =
           buildPermissionMask (\<lambda>s. s) sample_flags ([''print''] @ [''copy''])"
    using buildPermissionMask_invariant [of "\<lambda>s. s" _ _ sample_flags "[''print'']" _
        "[''copy'']" "''hi_res_print''"] h4 by blast
  show ?thesis
    using a b c d v h1 h2 h3 h4 by simp
qed

section \<open>Properties of DecryptPDF\<close>

lemma DecryptPDF_run_calls:
  "fst (DecryptPDF_run Decrypt dflt pdfBytes p ow) =
     (let conf = dflt\<lparr>UserPW := p, OwnerPW := p\<rparr> in
      if isl (snd (Decrypt pdfBytes conf)) \<and> ow \<noteq> [] \<and> ow \<noteq> p
      then [(pdfBytes, conf), (pdfBytes, (fst (Decrypt pdfBytes conf))\<lparr>UserPW := ow, OwnerPW := ow\<rparr>)]
      else [(pdfBytes, conf)])"
  by (simp add: DecryptPDF_run_def Let_def split: prod.splits)

lemma DecryptPDF_run_result:
  "snd (DecryptPDF_run Decrypt dflt pdfBytes p ow) =
     (let conf = dflt\<lparr>UserPW := p, OwnerPW := p\<rparr> in
      if isl (snd (Decrypt pdfBytes conf)) \<and> ow \<noteq> [] \<and> ow \<noteq> p
      then snd (Decrypt pdfBytes ((fst (Decrypt pdfBytes conf))\<lparr>UserPW := ow, OwnerPW := ow\<rparr>))
      else snd (Decrypt pdfBytes conf))"
  by (simp add: DecryptPDF_run_def Let_def split: prod.splits)

text \<open>
  Claim C1. For every buffer, primary password \<open>p\<close> and secondary password \<open>ow\<close>, the calls
  of \<open>api.Decrypt\<close> are: first one with \<open>p\<close> as user and as owner password; then, if and only
  if that call failed and \<open>ow\<close> is non-empty and differs from \<open>p\<close>, exactly one more with
  \<open>ow\<close> as user and as owner password; and no other. Every call reads the same bytes, and
  the outcome of the run is the outcome of the last call.
\<close>

theorem DecryptPDF_attempts:
  "map (\<lambda>(b, c). (b, UserPW c, OwnerPW c)) (fst (DecryptPDF_run Decrypt dflt pdfBytes p ow)) =
     (if isl (snd (Decrypt pdfBytes (dflt\<lparr>UserPW := p, OwnerPW := p\<rparr>))) \<and> ow \<noteq> [] \<and> ow \<noteq> p
      then [(pdfBytes, p, p), (pdfBytes, ow, ow)]
      else [(pdfBytes, p, p)])
   \<and> snd (DecryptPDF_run Decrypt dflt pdfBytes p ow) =
       snd (case last (fst (DecryptPDF_run Decrypt dflt pdfBytes p ow)) of (b, c) \<Rightarrow> Decrypt b c)"
  by (simp add: DecryptPDF_run_calls DecryptPDF_run_result Let_def)

text \<open>
  The theorem of C1 on four runs: a retry that succeeds, a first attempt that succeeds, an
  empty secondary password, and a secondary password equal to the primary one.
\<close>

theorem DecryptPDF_attempts_witness:
  "map (\<lambda>(b, c). (b, UserPW c, OwnerPW c))
     (fst (DecryptPDF_run (sample_Decrypt ''owner123'') sample_conf [1, 2, 3] ''guess'' ''owner123'')) =
     [([1, 2, 3], ''guess'', ''guess''), ([1, 2, 3], ''owner123'', ''owner123'')]
   \<and> map (\<lambda>(b, c). (b, UserPW c, OwnerPW c))
     (fst (DecryptPDF_run (sample_Decrypt ''owner123'') sample_conf [1, 2, 3] ''owner123'' ''other'')) =
     [([1, 2, 3], ''owner123'', ''owner123'')]
   \<and> map (\<lambda>(b, c). (b, UserPW c, OwnerPW c))
     (fst (DecryptPDF_run (sample_Decrypt ''owner123'') sample_conf [1, 2, 3] ''guess'' '''')) =
     [([1, 2, 3], ''guess'', ''guess'')]
   \<and> map (\<lambda>(b, c). (b, UserPW c, OwnerPW c))
     (fst (DecryptPDF_run (sample_Decrypt ''owner123'') sample_conf [1, 2, 3] ''guess'' ''guess'')) =
     [([1, 2, 3], ''guess'', ''guess'')]"
  using DecryptPDF_attempts [of "sample_Decrypt ''owner123''" sample_conf "[1, 2, 3]" "''guess''" "''owner123''"]
    DecryptPDF_attempts [of "sample_Decrypt ''owner123''" sample_conf "[1, 2, 3]" "''owner123''" "''other''"]
    DecryptPDF_attempts [of "sample_Decrypt ''owner123''" sample_conf "[1, 2, 3]" "''guess''" "''''"]
    DecryptPDF_attempts [of "sample_Decrypt ''owner123''" sample_conf "[1, 2, 3]" "''guess''" "''guess''"]
  by simp

text \<open>
  Claim C8. When both attempts are made and both fail, the returned text is
  \<open>"Error decrypting PDF: "\<close> followed by the second failure's message; the first failure's
  message is dropped, so the text is not the one the first failure would have given unless
  the two messages are the same.
\<close>

theorem DecryptPDF_both_fail:
  assumes "snd (Decrypt pdfBytes (dflt\<lparr>UserPW := p, OwnerPW := p\<rparr>)) = Inl e1"
    and "ow \<noteq> []" and "ow \<noteq> p"
    and "snd (Decrypt pdfBytes
           ((fst (Decrypt pdfBytes (dflt\<lparr>UserPW := p, OwnerPW := p\<rparr>)))\<lparr>UserPW := ow, OwnerPW := ow\<rparr>)) =
         Inl e2"
  shows "DecryptPDF Decrypt b64 dflt pdfBytes p ow = ''Error decrypting PDF: '' @ e2
         \<and> (e1 \<noteq> e2 \<longrightarrow> DecryptPDF Decrypt b64 dflt pdfBytes p ow \<noteq> ''Error decrypting PDF: '' @ e1)"
  using assms by (simp add: DecryptPDF_def DecryptPDF_run_result Let_def)

text \<open>The theorem of C8 on a run where two wrong passwords give two different messages.\<close>

theorem DecryptPDF_both_fail_witness:
  "snd (sample_Decrypt ''owner123'' [1, 2, 3] (sample_conf\<lparr>UserPW := ''guess'', OwnerPW := ''guess''\<rparr>)) =
     Inl ''wrong password: guess''
   \<and> snd (sample_Decrypt ''owner123'' [1, 2, 3]
        ((fst (sample_Decrypt ''owner123'' [1, 2, 3] (sample_conf\<lparr>UserPW := ''guess'', OwnerPW := ''guess''\<rparr>)))
           \<lparr>UserPW := ''other'', OwnerPW := ''other''\<rparr>)) = Inl ''wrong password: other''
   \<and> DecryptPDF (sample_Decrypt ''owner123'') (\<lambda>bs. []) sample_conf [1, 2, 3] ''guess'' ''other'' =
       ''Error decrypting PDF: wrong password: other''"
proof -
  have h1: "snd (sample_Decrypt ''owner123'' [1, 2, 3]
               (sample_conf\<lparr>UserPW := ''guess'', OwnerPW := ''guess''\<rparr>)) = Inl ''wrong password: guess''"
    by simp
  have h2: "''other'' \<noteq> []" by simp
  have h3: "''other'' \<noteq> ''guess''" by simp
  have h4: "snd (sample_Decrypt ''owner123'' [1, 2, 3]
        ((fst (sample_Decrypt ''owner123'' [1, 2, 3] (sample_conf\<lparr>UserPW := ''guess'', OwnerPW := ''guess''\<rparr>)))
           \<lparr>UserPW := ''other'', OwnerPW := ''other''\<rparr>)) = Inl ''wrong password: other''"
    by simp
  note t = DecryptPDF_both_fail [where Decrypt = "sample_Decrypt ''owner123''"
      and pdfBytes = "[1, 2, 3]" and dflt = sample_conf and p = "''guess''" and ow = "''other''"
      and ?e1.0 = "''wrong password: guess''" and ?e2.0 = "''wrong password: other''"
      and ?b64.0 = "\<lambda>bs. []"]
  from t [OF h1 h2 h3 h4] h1 h4 show ?thesis by simp
qed

section \<open>Properties of EncryptPDF\<close>

lemma setCustomPerms_iff:
  "setCustomPerms ul perms \<longleftrightarrow>
     perms \<noteq> [] \<and> \<not> (\<exists>t. perms = [t] \<and> ToLower ul t = ''default'')"
proof (cases perms)
  case Nil
  then show ?thesis by (simp add: setCustomPerms_def)
next
  case (Cons t ts)
  then show ?thesis by (cases ts) (simp_all add: setCustomPerms_def)
qed

lemma Permissions_NewAESConfiguration:
  "Permissions (NewAESConfiguration dflt u ow k) = Permissions dflt"
  by (simp add: NewAESConfiguration_def)

lemma EncryptPDF_conf_default:
  "\<not> setCustomPerms ul perms \<Longrightarrow>
   EncryptPDF_conf ul fl dflt u ow perms = NewAESConfiguration dflt u ow 256"
  by (simp add: EncryptPDF_conf_def)

lemma EncryptPDF_conf_custom:
  "setCustomPerms ul perms \<Longrightarrow>
   EncryptPDF_conf ul fl dflt u ow perms =
     (NewAESConfiguration dflt u ow 256)\<lparr>Permissions := buildPermissionMask ul fl perms\<rparr>"
  by (simp add: EncryptPDF_conf_def)

lemma not_setCustomPerms_default: "ToLower ul t = ''default'' \<Longrightarrow> \<not> setCustomPerms ul [t]"
  by (simp add: setCustomPerms_iff)

text \<open>
  Claim C2, as amended. Custom permissions are applied to the configuration if and only if
  the decoded list is non-empty and is not a single-element list whose element lower-cases to
  \<open>"default"\<close>; they are then the mask of the list. Otherwise the configuration is the one the
  constructor returned, with the library's built-in default permissions untouched. That this
  built-in default is "no permissions" is a property of the library's default configuration,
  which is not in the repository: where its mask is the library's no-permissions value
  \<open>PermissionsNone\<close>, as the spec describes it, the mask handed to \<open>api.Encrypt\<close> is that
  value. The empty list and \<open>["default"]\<close> give the same configuration, hence the same
  permission mask.
\<close>

theorem EncryptPDF_custom_permissions:
  "(setCustomPerms ul perms \<longleftrightarrow>
      perms \<noteq> [] \<and> \<not> (\<exists>t. perms = [t] \<and> ToLower ul t = ''default''))
   \<and> (setCustomPerms ul perms \<longrightarrow>
        EncryptPDF_conf ul fl dflt u ow perms =
          (NewAESConfiguration dflt u ow 256)\<lparr>Permissions := buildPermissionMask ul fl perms\<rparr>)
   \<and> (\<not> setCustomPerms ul perms \<longrightarrow>
        EncryptPDF_conf ul fl dflt u ow perms = NewAESConfiguration dflt u ow 256
        \<and> Permissions (EncryptPDF_conf ul fl dflt u ow perms) = Permissions dflt)
   \<and> EncryptPDF_conf ul fl dflt u ow [] = EncryptPDF_conf ul fl dflt u ow [''default'']
   \<and> Permissions (EncryptPDF_conf ul fl dflt u ow []) =
       Permissions (EncryptPDF_conf ul fl dflt u ow [''default''])
   \<and> (Permissions dflt = PermissionsNone fl \<longrightarrow>
        (\<not> setCustomPerms ul perms \<longrightarrow>
           Permissions (EncryptPDF_conf ul fl dflt u ow perms) = PermissionsNone fl)
        \<and> Permissions (EncryptPDF_conf ul fl dflt u ow []) = PermissionsNone fl
        \<and> Permissions (EncryptPDF_conf ul fl dflt u ow [''default'']) = PermissionsNone fl)"
proof -
  have e: "\<not> setCustomPerms ul []" by (simp add: setCustomPerms_iff)
  have d: "\<not> setCustomPerms ul [''default'']"
    by (rule not_setCustomPerms_default) (rule ToLower_vocab)
  show ?thesis
    using setCustomPerms_iff [of ul perms] EncryptPDF_conf_custom [of ul perms fl dflt u ow]
      EncryptPDF_conf_default [of ul perms fl dflt u ow]
      EncryptPDF_conf_default [OF e, of fl dflt u ow] EncryptPDF_conf_default [OF d, of fl dflt u ow]
      Permissions_NewAESConfiguration [of dflt u ow 256]
    by simp
qed

text \<open>
  The theorem of C2 on \<open>["print","copy"]\<close> (applied), \<open>["Default"]\<close>, the empty list and
  \<open>["default"]\<close> (not applied), with a default configuration whose mask is the
  no-permissions value of the flag table.
\<close>

theorem EncryptPDF_custom_permissions_witness:
  "setCustomPerms (\<lambda>s. s) [''print'', ''copy'']
   \<and> Permissions (EncryptPDF_conf (\<lambda>s. s) sample_flags sample_conf ''user123'' ''owner123''
        [''print'', ''copy'']) = 2064
   \<and> \<not> setCustomPerms (\<lambda>s. s) [''Default'']
   \<and> EncryptPDF_conf (\<lambda>s. s) sample_flags sample_conf ''user123'' ''owner123'' [''Default''] =
       NewAESConfiguration sample_conf ''user123'' ''owner123'' 256
   \<and> Permissions (EncryptPDF_conf (\<lambda>s. s) sample_flags sample_conf ''user123'' ''owner123'' []) = 0
   \<and> Permissions (EncryptPDF_conf (\<lambda>s. s) sample_flags sample_conf ''user123'' ''owner123''
        [''default'']) = 0
   \<and> Permissions sample_conf = PermissionsNone sample_flags
   \<and> Permissions (EncryptPDF_conf (\<lambda>s. s) sample_flags sample_conf ''user123'' ''owner123''
        [''Default'']) = PermissionsNone sample_flags"
proof -
  note t1 = EncryptPDF_custom_permissions [of "\<lambda>s. s" "[''print'', ''copy'']" sample_flags
      sample_conf "''user123''" "''owner123''"]
  note t2 = EncryptPDF_custom_permissions [of "\<lambda>s. s" "[''Default'']" sample_flags
      sample_conf "''user123''" "''owner123''"]
  note t3 = EncryptPDF_custom_permissions [of "\<lambda>s. s" "[]" sample_flags
      sample_conf "''user123''" "''owner123''"]
  have h1: "setCustomPerms (\<lambda>s. s) [''print'', ''copy'']" using t1 by simp
  have h2: "\<not> setCustomPerms (\<lambda>s. s) [''Default'']" using t2 by (simp add: ToLower_eval)
  have h3: "\<not> setCustomPerms (\<lambda>s. s) []" using t3 by simp
  have m: "buildPermissionMask (\<lambda>s. s) sample_flags [''print'', ''copy''] = 2064"
    by (simp add: build_Cons build_Nil maskStep_def ToLower_vocab Perm_defs)
  have a: "Permissions (EncryptPDF_conf (\<lambda>s. s) sample_flags sample_conf ''user123'' ''owner123''
        [''print'', ''copy'']) = 2064"
    using t1 h1 m by simp
  have b: "EncryptPDF_conf (\<lambda>s. s) sample_flags sample_conf ''user123'' ''owner123'' [''Default''] =
       NewAESConfiguration sample_conf ''user123'' ''owner123'' 256"
    using t2 h2 by blast
  have c: "Permissions (EncryptPDF_conf (\<lambda>s. s) sample_flags sample_conf ''user123'' ''owner123'' []) = 0"
    using t3 h3 by (simp add: Permissions_NewAESConfiguration)
  have d: "Permissions (EncryptPDF_conf (\<lambda>s. s) sample_flags sample_conf ''user123'' ''owner123''
        [''default'']) = 0"
    using t3 c by simp
  have n: "Permissions sample_conf = PermissionsNone sample_flags" by simp
  have f: "Permissions (EncryptPDF_conf (\<lambda>s. s) sample_flags sample_conf ''user123'' ''owner123''
        [''Default'']) = PermissionsNone sample_flags"
    using t2 [THEN conjunct2, THEN conjunct2, THEN conjunct2, THEN conjunct2, THEN conjunct2] n h2
    by blast
  show ?thesis using h1 h2 a b c d n f by simp
qed

text \<open>
  Claim C2 as stated fails: \<open>["DEFAULT"]\<close> is non-empty and is not the list \<open>["default"]\<close>, yet
  \<open>setCustomPerms\<close> is false and the configuration is left as the constructor returned it,
  because line 88 lower-cases the element before comparing.
\<close>

theorem EncryptPDF_custom_permissions_counterexample:
  "\<not> setCustomPerms (\<lambda>s. s) [''DEFAULT'']
   \<and> [''DEFAULT''] \<noteq> ([] :: string list)
   \<and> [''DEFAULT''] \<noteq> [''default'']
   \<and> EncryptPDF_conf (\<lambda>s. s) sample_flags sample_conf ''user123'' ''owner123'' [''DEFAULT''] =
       NewAESConfiguration sample_conf ''user123'' ''owner123'' 256"
  by (simp add: EncryptPDF_conf_def setCustomPerms_def ToLower_eval)

text \<open>
  Claim C10. For every single-element list whose element lower-cases to \<open>"default"\<close>, the
  flag \<open>setCustomPerms\<close> stays false and the configuration keeps the built-in default
  permissions: it is the configuration obtained for \<open>["default"]\<close> and for the empty list.
\<close>

theorem EncryptPDF_default_any_case:
  assumes "ToLower ul t = ''default''"
  shows "\<not> setCustomPerms ul [t]
         \<and> EncryptPDF_conf ul fl dflt u ow [t] = NewAESConfiguration dflt u ow 256
         \<and> Permissions (EncryptPDF_conf ul fl dflt u ow [t]) = Permissions dflt
         \<and> EncryptPDF_conf ul fl dflt u ow [t] = EncryptPDF_conf ul fl dflt u ow [''default'']
         \<and> EncryptPDF_conf ul fl dflt u ow [t] = EncryptPDF_conf ul fl dflt u ow []"
proof -
  have t: "\<not> setCustomPerms ul [t]" using assms by (rule not_setCustomPerms_default)
  have d: "\<not> setCustomPerms ul [''default'']"
    by (rule not_setCustomPerms_default) (rule ToLower_vocab)
  have e: "\<not> setCustomPerms ul []" by (simp add: setCustomPerms_iff)
  show ?thesis
    using t EncryptPDF_conf_default [OF t, of fl dflt u ow]
      EncryptPDF_conf_default [OF d, of fl dflt u ow] EncryptPDF_conf_default [OF e, of fl dflt u ow]
      Permissions_NewAESConfiguration [of dflt u ow 256]
    by simp
qed

text \<open>The theorem of C10 on \<open>["DEFAULT"]\<close> and \<open>["Default"]\<close>.\<close>

theorem EncryptPDF_default_any_case_witness:
  "ToLower (\<lambda>s. s) ''DEFAULT'' = ''default''
   \<and> ToLower (\<lambda>s. s) ''Default'' = ''default''
   \<and> EncryptPDF_conf (\<lambda>s. s) sample_flags sample_conf ''user123'' ''owner123'' [''DEFAULT''] =
       EncryptPDF_conf (\<lambda>s. s) sample_flags sample_conf ''user123'' ''owner123'' []
   \<and> EncryptPDF_conf (\<lambda>s. s) sample_flags sample_conf ''user123'' ''owner123'' [''Default''] =
       EncryptPDF_conf (\<lambda>s. s) sample_flags sample_conf ''user123'' ''owner123'' [''default'']
   \<and> Permissions (EncryptPDF_conf (\<lambda>s. s) sample_flags sample_conf ''user123'' ''owner123''
        [''DEFAULT'']) = 0"
proof -
  have h1: "ToLower (\<lambda>s. s) ''DEFAULT'' = ''default''" by (simp add: ToLower_eval)
  have h2: "ToLower (\<lambda>s. s) ''Default'' = ''default''" by (simp add: ToLower_eval)
  note a = EncryptPDF_default_any_case [OF h1, of sample_flags sample_conf "''user123''" "''owner123''"]
  note b = EncryptPDF_default_any_case [OF h2, of sample_flags sample_conf "''user123''" "''owner123''"]
  have c1: "EncryptPDF_conf (\<lambda>s. s) sample_flags sample_conf ''user123'' ''owner123'' [''DEFAULT''] =
       EncryptPDF_conf (\<lambda>s. s) sample_flags sample_conf ''user123'' ''owner123'' []"
    using a by (elim conjE)
  have c2: "EncryptPDF_conf (\<lambda>s. s) sample_flags sample_conf ''user123'' ''owner123'' [''Default''] =
       EncryptPDF_conf (\<lambda>s. s) sample_flags sample_conf ''user123'' ''owner123'' [''default'']"
    using b by (elim conjE)
  have c3: "Permissions (EncryptPDF_conf (\<lambda>s. s) sample_flags sample_conf ''user123'' ''owner123''
        [''DEFAULT'']) = 0"
    using a by (elim conjE) simp
  show ?thesis using h1 h2 c1 c2 c3 by (intro conjI)
qed

text \<open>
  Claim C9, as amended. The error that \<open>json.Unmarshal\<close> returns is dropped: the result of
  \<open>EncryptPDF\<close> is computed from the list the decoder left in \<open>permissions\<close> and from
  nothing else of the decoder, so two decoders that leave the same list give the same result
  whatever errors they report, and no error text is produced for the JSON. When the list is
  empty, encryption runs with the constructor's configuration and its built-in default
  permissions. When the decoder leaves a non-empty list that is not a lone \<open>"default"\<close>,
  encryption runs with the mask of that list, error or not.
\<close>

theorem EncryptPDF_unmarshal_error_ignored:
  "EncryptPDF Unmarshal ul fl dflt Encrypt b64 pdfBytes u ow j =
     (case Encrypt pdfBytes (EncryptPDF_conf ul fl dflt u ow (fst (Unmarshal j []))) of
        Inl err \<Rightarrow> ''Error encrypting PDF: '' @ err
      | Inr encodedOutput \<Rightarrow> b64 encodedOutput)
   \<and> (fst (Unmarshal j []) = fst (Unmarshal' j []) \<longrightarrow>
        EncryptPDF Unmarshal ul fl dflt Encrypt b64 pdfBytes u ow j =
        EncryptPDF Unmarshal' ul fl dflt Encrypt b64 pdfBytes u ow j)
   \<and> (fst (Unmarshal j []) = [] \<longrightarrow>
        EncryptPDF Unmarshal ul fl dflt Encrypt b64 pdfBytes u ow j =
          (case Encrypt pdfBytes (NewAESConfiguration dflt u ow 256) of
             Inl err \<Rightarrow> ''Error encrypting PDF: '' @ err
           | Inr encodedOutput \<Rightarrow> b64 encodedOutput))
   \<and> (fst (Unmarshal j []) \<noteq> [] \<longrightarrow>
        (\<forall>t. fst (Unmarshal j []) = [t] \<longrightarrow> ToLower ul t \<noteq> ''default'') \<longrightarrow>
        EncryptPDF Unmarshal ul fl dflt Encrypt b64 pdfBytes u ow j =
          (case Encrypt pdfBytes ((NewAESConfiguration dflt u ow 256)
                  \<lparr>Permissions := buildPermissionMask ul fl (fst (Unmarshal j []))\<rparr>) of
             Inl err \<Rightarrow> ''Error encrypting PDF: '' @ err
           | Inr encodedOutput \<Rightarrow> b64 encodedOutput))"
proof -
  have a: "EncryptPDF dec ul fl dflt Encrypt b64 pdfBytes u ow j =
     (case Encrypt pdfBytes (EncryptPDF_conf ul fl dflt u ow (fst (dec j []))) of
        Inl err \<Rightarrow> ''Error encrypting PDF: '' @ err
      | Inr encodedOutput \<Rightarrow> b64 encodedOutput)" for dec
    by (simp add: EncryptPDF_def Let_def)
  have b: "EncryptPDF_conf ul fl dflt u ow (fst (Unmarshal j [])) = NewAESConfiguration dflt u ow 256"
    if "fst (Unmarshal j []) = []"
    using that by (simp add: EncryptPDF_conf_default setCustomPerms_iff)
  have c: "EncryptPDF_conf ul fl dflt u ow (fst (Unmarshal j [])) =
           (NewAESConfiguration dflt u ow 256)
             \<lparr>Permissions := buildPermissionMask ul fl (fst (Unmarshal j []))\<rparr>"
    if "fst (Unmarshal j []) \<noteq> []"
      and "\<forall>t. fst (Unmarshal j []) = [t] \<longrightarrow> ToLower ul t \<noteq> ''default''"
    using that by (intro EncryptPDF_conf_custom) (simp add: setCustomPerms_iff)
  show ?thesis
    using a [of Unmarshal] a [of Unmarshal'] b c by simp
qed

text \<open>
  The theorem of C9 on a text that is not JSON (empty list, default permissions kept: the
  last letter is \<open>A\<close>) and on \<open>["print","copy"]\<close> (mask applied: the last letter is \<open>B\<close>).
\<close>

theorem EncryptPDF_unmarshal_error_ignored_witness:
  "snd (sample_Unmarshal ''{'' []) = Some ''unexpected end of JSON input''
   \<and> fst (sample_Unmarshal ''{'' []) = []
   \<and> EncryptPDF sample_Unmarshal (\<lambda>s. s) sample_flags sample_conf sample_Encrypt sample_b64
        [1, 2] ''user123'' ''owner123'' ''{'' = ''BBA''
   \<and> fst (sample_Unmarshal ''[\"print\",\"copy\"]'' []) = [''print'', ''copy'']
   \<and> EncryptPDF sample_Unmarshal (\<lambda>s. s) sample_flags sample_conf sample_Encrypt sample_b64
        [1, 2] ''user123'' ''owner123'' ''[\"print\",\"copy\"]'' = ''BBB''"
proof -
  have h1: "fst (sample_Unmarshal ''{'' []) = []" by simp
  have h2: "fst (sample_Unmarshal ''[\"print\",\"copy\"]'' []) \<noteq> []" by simp
  have h3: "\<forall>t. fst (sample_Unmarshal ''[\"print\",\"copy\"]'' []) = [t] \<longrightarrow>
              ToLower (\<lambda>s. s) t \<noteq> ''default''" by simp
  have m: "buildPermissionMask (\<lambda>s. s) sample_flags [''print'', ''copy''] = 2064"
    by (simp add: build_Cons build_Nil maskStep_def ToLower_vocab Perm_defs)
  note t1 = EncryptPDF_unmarshal_error_ignored [of sample_Unmarshal "\<lambda>s. s" sample_flags
      sample_conf sample_Encrypt sample_b64 "[1, 2]" "''user123''" "''owner123''" "''{''"
      sample_Unmarshal]
  note t2 = EncryptPDF_unmarshal_error_ignored [of sample_Unmarshal "\<lambda>s. s" sample_flags
      sample_conf sample_Encrypt sample_b64 "[1, 2]" "''user123''" "''owner123''"
      "''[\"print\",\"copy\"]''" sample_Unmarshal]
  have a: "EncryptPDF sample_Unmarshal (\<lambda>s. s) sample_flags sample_conf sample_Encrypt sample_b64
        [1, 2] ''user123'' ''owner123'' ''{'' = ''BBA''"
    using t1 [THEN conjunct2, THEN conjunct2, THEN conjunct1] h1
    by (simp add: NewAESConfiguration_def)
  have b: "EncryptPDF sample_Unmarshal (\<lambda>s. s) sample_flags sample_conf sample_Encrypt sample_b64
        [1, 2] ''user123'' ''owner123'' ''[\"print\",\"copy\"]'' = ''BBB''"
    using t2 [THEN conjunct2, THEN conjunct2, THEN conjunct2] h2 h3 m
    by (simp add: NewAESConfiguration_def)
  show ?thesis using a b by simp
qed

text \<open>
  Claim C9 as stated fails on \<open>["print",5]\<close>, which is not JSON for an array of strings: the
  decoder reports an error and leaves \<open>["print",""]\<close>, so the list is not treated as empty,
  \<open>setCustomPerms\<close> is true and \<open>api.Encrypt\<close> receives the print flag instead of the
  default permissions.
\<close>

theorem EncryptPDF_unmarshal_error_counterexample:
  "snd (sample_Unmarshal ''[\"print\",5]'' []) \<noteq> None
   \<and> fst (sample_Unmarshal ''[\"print\",5]'' []) = [''print'', '''']
   \<and> setCustomPerms (\<lambda>s. s) (fst (sample_Unmarshal ''[\"print\",5]'' []))
   \<and> Permissions (EncryptPDF_conf (\<lambda>s. s) sample_flags sample_conf ''user123'' ''owner123''
        (fst (sample_Unmarshal ''[\"print\",5]'' []))) = 2048
   \<and> Permissions sample_conf = 0
   \<and> EncryptPDF sample_Unmarshal (\<lambda>s. s) sample_flags sample_conf sample_Encrypt sample_b64
        [1, 2] ''user123'' ''owner123'' ''[\"print\",5]'' = ''BBB''"
proof -
  have m: "buildPermissionMask (\<lambda>s. s) sample_flags [''print'', ''''] = 2048"
    by (simp add: build_Cons build_Nil maskStep_def ToLower_eval Perm_defs)
  have s: "setCustomPerms (\<lambda>s. s) [''print'', '''']"
    by (simp add: setCustomPerms_def)
  show ?thesis
    using m s by (simp add: EncryptPDF_def EncryptPDF_conf_def NewAESConfiguration_def Let_def)
qed

section \<open>Properties of the wrapper\<close>

text \<open>
  Claim C5. \<open>encryptPDF(P, pw)\<close> with the owner password left out makes the same native
  call, and so gives the same result, as \<open>encryptPDF(P, pw, pw)\<close>: the default of the
  JavaScript parameter. An owner password that is passed, the empty string included, reaches
  the native call as it is, and \<open>EncryptPDF\<close> hands it to the constructor as it is; the
  defaulting of an empty owner password is the constructor's, as the spec describes the
  library. With it, encrypting with the owner password \<open>""\<close> builds the same configuration,
  and gives the same result, as encrypting with the user password as owner password.
\<close>

theorem encryptPDF_owner_default:
  "encryptPDF_call stringify P pw None perms = encryptPDF_call stringify P pw (Some pw) perms
   \<and> encryptPDF native stringify fromBase64 P pw None perms =
       encryptPDF native stringify fromBase64 P pw (Some pw) perms
   \<and> encryptPDF_call stringify P pw (Some ow) perms =
       (P, length P, pw, ow,
        stringify (case perms of None \<Rightarrow> [PDFPermission_DEFAULT] | Some ps \<Rightarrow> ps))
   \<and> EncryptPDF_conf ul fl dflt pw ow permissions =
       (let conf = NewAESConfiguration dflt pw ow 256
        in if setCustomPerms ul permissions
           then conf\<lparr>Permissions := buildPermissionMask ul fl permissions\<rparr> else conf)
   \<and> EncryptPDF_conf ul fl dflt pw [] permissions = EncryptPDF_conf ul fl dflt pw pw permissions
   \<and> UserPW (EncryptPDF_conf ul fl dflt pw [] permissions) = pw
   \<and> OwnerPW (EncryptPDF_conf ul fl dflt pw [] permissions) = pw
   \<and> EncryptPDF Unmarshal ul fl dflt Encrypt b64 pdfBytes pw [] j =
       EncryptPDF Unmarshal ul fl dflt Encrypt b64 pdfBytes pw pw j"
proof -
  have c: "NewAESConfiguration dflt pw [] 256 = NewAESConfiguration dflt pw pw 256"
    by (simp add: NewAESConfiguration_def)
  have e: "EncryptPDF_conf ul fl dflt pw [] ps = EncryptPDF_conf ul fl dflt pw pw ps" for ps
    by (simp add: EncryptPDF_conf_def c)
  have o1: "UserPW (EncryptPDF_conf ul fl dflt pw [] permissions) = pw"
    by (simp add: EncryptPDF_conf_def NewAESConfiguration_def Let_def)
  have o2: "OwnerPW (EncryptPDF_conf ul fl dflt pw [] permissions) = pw"
    by (simp add: EncryptPDF_conf_def NewAESConfiguration_def Let_def)
  have w1: "encryptPDF_call stringify P pw None perms =
            encryptPDF_call stringify P pw (Some pw) perms"
    by (simp add: encryptPDF_call_def)
  have w2: "encryptPDF native stringify fromBase64 P pw None perms =
            encryptPDF native stringify fromBase64 P pw (Some pw) perms"
    by (simp add: encryptPDF_def w1)
  have w3: "encryptPDF_call stringify P pw (Some ow) perms =
            (P, length P, pw, ow,
             stringify (case perms of None \<Rightarrow> [PDFPermission_DEFAULT] | Some ps \<Rightarrow> ps))"
    by (simp add: encryptPDF_call_def Let_def)
  have d: "EncryptPDF_conf ul fl dflt pw ow permissions =
       (let conf = NewAESConfiguration dflt pw ow 256
        in if setCustomPerms ul permissions
           then conf\<lparr>Permissions := buildPermissionMask ul fl permissions\<rparr> else conf)"
    by (simp add: EncryptPDF_conf_def Let_def)
  have n: "EncryptPDF Unmarshal ul fl dflt Encrypt b64 pdfBytes pw [] j =
           EncryptPDF Unmarshal ul fl dflt Encrypt b64 pdfBytes pw pw j"
    by (simp add: EncryptPDF_def e)
  from w1 w2 w3 d e [of permissions] o1 o2 n show ?thesis
    by (intro conjI)
qed

text \<open>
  The theorem of C5 on a call without owner password, the call with the user password
  repeated, and the call with the empty owner password, down to the configuration and the
  result of the native entry point.
\<close>

theorem encryptPDF_owner_default_witness:
  "encryptPDF_call sample_stringify [1, 2] ''pw'' None None =
     ([1, 2], 2, ''pw'', ''pw'', ''[\"default\"]'')
   \<and> encryptPDF_call sample_stringify [1, 2] ''pw'' (Some ''pw'') None =
     ([1, 2], 2, ''pw'', ''pw'', ''[\"default\"]'')
   \<and> encryptPDF_call sample_stringify [1, 2] ''pw'' (Some '''') None =
     ([1, 2], 2, ''pw'', '''', ''[\"default\"]'')
   \<and> OwnerPW (EncryptPDF_conf (\<lambda>s. s) sample_flags sample_conf ''pw'' '''' [''default'']) = ''pw''
   \<and> EncryptPDF_conf (\<lambda>s. s) sample_flags sample_conf ''pw'' '''' [''default''] =
       EncryptPDF_conf (\<lambda>s. s) sample_flags sample_conf ''pw'' ''pw'' [''default'']
   \<and> EncryptPDF sample_Unmarshal (\<lambda>s. s) sample_flags sample_conf sample_Encrypt sample_b64
        [1, 2] ''pw'' '''' ''[\"print\",\"copy\"]'' =
       EncryptPDF sample_Unmarshal (\<lambda>s. s) sample_flags sample_conf sample_Encrypt sample_b64
        [1, 2] ''pw'' ''pw'' ''[\"print\",\"copy\"]''"
proof -
  note t = encryptPDF_owner_default [where stringify = sample_stringify and P = "[1, 2]"
      and pw = "''pw''" and perms = None and ul = "\<lambda>s. s" and fl = sample_flags
      and dflt = sample_conf and permissions = "[''default'']" and Unmarshal = sample_Unmarshal
      and Encrypt = sample_Encrypt and ?b64.0 = sample_b64 and pdfBytes = "[1, 2]"
      and j = "''[\"print\",\"copy\"]''"]
  note t1 = t [where ow = "''pw''"] and t2 = t [where ow = "''''"]
  have a: "encryptPDF_call sample_stringify [1, 2] ''pw'' (Some ''pw'') None =
     ([1, 2], 2, ''pw'', ''pw'', ''[\"default\"]'')"
    using t1 [THEN conjunct2, THEN conjunct2, THEN conjunct1]
    by (simp add: PDFPermission_DEFAULT_def)
  have b: "encryptPDF_call sample_stringify [1, 2] ''pw'' None None =
     ([1, 2], 2, ''pw'', ''pw'', ''[\"default\"]'')"
    using t1 [THEN conjunct1] a by simp
  have c: "encryptPDF_call sample_stringify [1, 2] ''pw'' (Some '''') None =
     ([1, 2], 2, ''pw'', '''', ''[\"default\"]'')"
    using t2 [THEN conjunct2, THEN conjunct2, THEN conjunct1]
    by (simp add: PDFPermission_DEFAULT_def)
  note r = t2 [THEN conjunct2, THEN conjunct2, THEN conjunct2, THEN conjunct2]
  from b a c r [THEN conjunct2, THEN conjunct2, THEN conjunct1] r [THEN conjunct1]
    r [THEN conjunct2, THEN conjunct2, THEN conjunct2]
  show ?thesis by (intro conjI)
qed

lemma decodeOutput_cases:
  "((r = None \<or> r = Some []) \<longrightarrow> decodeOutput msg fromBase64 r = Inl (Error msg))
   \<and> (r = Some s \<and> startsWith s ''Error'' \<longrightarrow> decodeOutput msg fromBase64 r = Inl (Error s))
   \<and> (r = Some s \<and> s \<noteq> [] \<and> \<not> startsWith s ''Error'' \<longrightarrow>
        decodeOutput msg fromBase64 r = Inr (fromBase64 s))"
  by (auto simp: decodeOutput_def startsWith_def)

text \<open>
  Claim C4. For \<open>encryptPDF\<close> and for \<open>decryptPDF\<close>, with \<open>r\<close> the value the native call
  returned: if \<open>r\<close> is no text at all (\<open>null\<close>, or the empty string, which JavaScript's
  \<open>!encodedOutput\<close> treats alike) the wrapper raises \<open>"Encryption returned null"\<close>,
  respectively \<open>"Decryption returned null"\<close>; if the text begins with \<open>"Error"\<close> the wrapper
  raises an error carrying exactly that text, whatever the Base64 decoder would make of it;
  otherwise it returns the Base64 decoding of the text.
\<close>

theorem wrapper_result_handling:
  "(let r = nativeEncryptPDF P (length P) u (case ow of None \<Rightarrow> u | Some x \<Rightarrow> x)
              (stringify (case perms of None \<Rightarrow> [PDFPermission_DEFAULT] | Some ps \<Rightarrow> ps));
        out = encryptPDF nativeEncryptPDF stringify fromBase64 P u ow perms
    in ((r = None \<or> r = Some []) \<longrightarrow> out = Inl (Error ''Encryption returned null''))
       \<and> (r = Some s \<and> startsWith s ''Error'' \<longrightarrow> out = Inl (Error s))
       \<and> (r = Some s \<and> s \<noteq> [] \<and> \<not> startsWith s ''Error'' \<longrightarrow> out = Inr (fromBase64 s)))
   \<and> (let r = nativeDecryptPDF P (length P) u (case ow of None \<Rightarrow> [] | Some x \<Rightarrow> x);
            out = decryptPDF nativeDecryptPDF fromBase64 P u ow
        in ((r = None \<or> r = Some []) \<longrightarrow> out = Inl (Error ''Decryption returned null''))
           \<and> (r = Some s \<and> startsWith s ''Error'' \<longrightarrow> out = Inl (Error s))
           \<and> (r = Some s \<and> s \<noteq> [] \<and> \<not> startsWith s ''Error'' \<longrightarrow> out = Inr (fromBase64 s)))"
proof -
  have e: "encryptPDF nativeEncryptPDF stringify fromBase64 P u ow perms =
           decodeOutput ''Encryption returned null'' fromBase64
             (nativeEncryptPDF P (length P) u (case ow of None \<Rightarrow> u | Some x \<Rightarrow> x)
               (stringify (case perms of None \<Rightarrow> [PDFPermission_DEFAULT] | Some ps \<Rightarrow> ps)))"
    by (simp add: encryptPDF_def encryptPDF_call_def Let_def)
  have d: "decryptPDF nativeDecryptPDF fromBase64 P u ow =
           decodeOutput ''Decryption returned null'' fromBase64
             (nativeDecryptPDF P (length P) u (case ow of None \<Rightarrow> [] | Some x \<Rightarrow> x))"
    by (simp add: decryptPDF_def Let_def)
  show ?thesis
    unfolding Let_def e d
    using decodeOutput_cases [where s = s and msg = "''Encryption returned null''"
        and ?fromBase64.0 = fromBase64]
      decodeOutput_cases [where s = s and msg = "''Decryption returned null''"
        and ?fromBase64.0 = fromBase64]
    by blast
qed

text \<open>
  The theorem of C4 on native functions that return \<open>null\<close>, the empty string, an error text
  and an encoded buffer.
\<close>

theorem wrapper_result_handling_witness:
  "encryptPDF (\<lambda>b n u ow j. None) sample_stringify sample_fromBase64 [1, 2] ''pw'' None None =
     Inl (Error ''Encryption returned null'')
   \<and> startsWith ''Error encrypting PDF: bad'' ''Error''
   \<and> encryptPDF (\<lambda>b n u ow j. Some ''Error encrypting PDF: bad'') sample_stringify sample_fromBase64
        [1, 2] ''pw'' None None = Inl (Error ''Error encrypting PDF: bad'')
   \<and> \<not> startsWith ''BBA'' ''Error''
   \<and> encryptPDF (\<lambda>b n u ow j. Some ''BBA'') sample_stringify sample_fromBase64
        [1, 2] ''pw'' None None = Inr [1, 1, 0]
   \<and> decryptPDF (\<lambda>b n u ow. Some []) sample_fromBase64 [1, 2] ''pw'' None =
        Inl (Error ''Decryption returned null'')
   \<and> decryptPDF (\<lambda>b n u ow. Some ''Error decrypting PDF: bad'') sample_fromBase64
        [1, 2] ''pw'' None = Inl (Error ''Error decrypting PDF: bad'')
   \<and> decryptPDF (\<lambda>b n u ow. Some ''AB'') sample_fromBase64 [1, 2] ''pw'' (Some ''o'') = Inr [0, 1]"
proof -
  have s1: "startsWith ''Error encrypting PDF: bad'' ''Error''" by (simp add: startsWith_def)
  have s2: "startsWith ''Error decrypting PDF: bad'' ''Error''" by (simp add: startsWith_def)
  have s3: "\<not> startsWith ''BBA'' ''Error''" by (simp add: startsWith_def)
  have s4: "\<not> startsWith ''AB'' ''Error''" by (simp add: startsWith_def)
  have a: "encryptPDF (\<lambda>b n u ow j. None) sample_stringify sample_fromBase64 [1, 2] ''pw'' None None =
     Inl (Error ''Encryption returned null'')"
    using wrapper_result_handling [where nativeEncryptPDF = "\<lambda>b n u ow j. None" and P = "[1, 2]"
        and u = "''pw''" and ow = None and stringify = sample_stringify and perms = None
        and ?fromBase64.0 = sample_fromBase64 and s = "[]"
        and nativeDecryptPDF = "\<lambda>b n u ow. None"]
    by (simp add: Let_def)
  have b: "encryptPDF (\<lambda>b n u ow j. Some ''Error encrypting PDF: bad'') sample_stringify
        sample_fromBase64 [1, 2] ''pw'' None None = Inl (Error ''Error encrypting PDF: bad'')"
    using wrapper_result_handling [where nativeEncryptPDF = "\<lambda>b n u ow j. Some ''Error encrypting PDF: bad''" and P = "[1, 2]"
        and u = "''pw''" and ow = None and stringify = sample_stringify and perms = None
        and ?fromBase64.0 = sample_fromBase64 and s = "''Error encrypting PDF: bad''"
        and nativeDecryptPDF = "\<lambda>b n u ow. None"] s1
    by (simp add: Let_def)
  have c: "encryptPDF (\<lambda>b n u ow j. Some ''BBA'') sample_stringify sample_fromBase64
        [1, 2] ''pw'' None None = Inr [1, 1, 0]"
    using wrapper_result_handling [where nativeEncryptPDF = "\<lambda>b n u ow j. Some ''BBA''" and P = "[1, 2]"
        and u = "''pw''" and ow = None and stringify = sample_stringify and perms = None
        and ?fromBase64.0 = sample_fromBase64 and s = "''BBA''"
        and nativeDecryptPDF = "\<lambda>b n u ow. None"] s3
    by (simp add: Let_def)
  have d: "decryptPDF (\<lambda>b n u ow. Some []) sample_fromBase64 [1, 2] ''pw'' None =
        Inl (Error ''Decryption returned null'')"
    using wrapper_result_handling [where nativeEncryptPDF = "\<lambda>b n u ow j. None" and P = "[1, 2]"
        and u = "''pw''" and ow = None and stringify = sample_stringify and perms = None
        and ?fromBase64.0 = sample_fromBase64 and s = "[]"
        and nativeDecryptPDF = "\<lambda>b n u ow. Some []"]
    by (simp add: Let_def)
  have e: "decryptPDF (\<lambda>b n u ow. Some ''Error decrypting PDF: bad'') sample_fromBase64
        [1, 2] ''pw'' None = Inl (Error ''Error decrypting PDF: bad'')"
    using wrapper_result_handling [where nativeEncryptPDF = "\<lambda>b n u ow j. None" and P = "[1, 2]"
        and u = "''pw''" and ow = None and stringify = sample_stringify and perms = None
        and ?fromBase64.0 = sample_fromBase64 and s = "''Error decrypting PDF: bad''"
        and nativeDecryptPDF = "\<lambda>b n u ow. Some ''Error decrypting PDF: bad''"] s2
    by (simp add: Let_def)
  have f: "decryptPDF (\<lambda>b n u ow. Some ''AB'') sample_fromBase64 [1, 2] ''pw'' (Some ''o'') = Inr [0, 1]"
    using wrapper_result_handling [where nativeEncryptPDF = "\<lambda>b n u ow j. None" and P = "[1, 2]"
        and u = "''pw''" and ow = "Some ''o''" and stringify = sample_stringify and perms = None
        and ?fromBase64.0 = sample_fromBase64 and s = "''AB''"
        and nativeDecryptPDF = "\<lambda>b n u ow. Some ''AB''"] s4
    by (simp add: Let_def)
  show ?thesis using a b c d e f s1 s3 by simp
qed

text \<open>
  Claim C6. The library path is a function of the platform and the architecture alone (for a
  fixed module directory): \<open>linux\<close> with \<open>x64\<close> selects the Linux shared object, \<open>darwin\<close>
  with \<open>arm64\<close> the Apple-silicon dylib, \<open>darwin\<close> with any other architecture the Intel
  dylib, \<open>win32\<close> with \<open>x64\<close> the Windows DLL, and every other pair raises an error whose
  message names the platform and the architecture.
\<close>

theorem getLibraryPath_cases:
  "(platform = ''linux'' \<and> arch = ''x64'' \<longrightarrow>
      getLibraryPath resolve dirname platform arch = Inr (resolve dirname ''lib'' ''pdfencrypt_linux.so''))
   \<and> (platform = ''darwin'' \<and> arch = ''arm64'' \<longrightarrow>
      getLibraryPath resolve dirname platform arch =
        Inr (resolve dirname ''lib'' ''pdfencrypt_darwin_arm64.dylib''))
   \<and> (platform = ''darwin'' \<and> arch \<noteq> ''arm64'' \<longrightarrow>
      getLibraryPath resolve dirname platform arch =
        Inr (resolve dirname ''lib'' ''pdfencrypt_darwin_x64.dylib''))
   \<and> (platform = ''win32'' \<and> arch = ''x64'' \<longrightarrow>
      getLibraryPath resolve dirname platform arch = Inr (resolve dirname ''lib'' ''pdfencrypt_win_x64.dll''))
   \<and> (platform \<noteq> ''darwin'' \<and> \<not> (platform = ''linux'' \<and> arch = ''x64'')
        \<and> \<not> (platform = ''win32'' \<and> arch = ''x64'') \<longrightarrow>
      getLibraryPath resolve dirname platform arch =
        Inl (Error (''Unsupported platform/architecture: '' @ platform @ ''/'' @ arch)))"
  by (simp add: getLibraryPath_def)

text \<open>The theorem of C6 on the four supported pairs and on two unsupported ones.\<close>

theorem getLibraryPath_cases_witness:
  "getLibraryPath sample_resolve ''/app'' ''linux'' ''x64'' = Inr ''/app/lib/pdfencrypt_linux.so''
   \<and> getLibraryPath sample_resolve ''/app'' ''darwin'' ''arm64'' =
       Inr ''/app/lib/pdfencrypt_darwin_arm64.dylib''
   \<and> getLibraryPath sample_resolve ''/app'' ''darwin'' ''x64'' =
       Inr ''/app/lib/pdfencrypt_darwin_x64.dylib''
   \<and> getLibraryPath sample_resolve ''/app'' ''win32'' ''x64'' = Inr ''/app/lib/pdfencrypt_win_x64.dll''
   \<and> getLibraryPath sample_resolve ''/app'' ''linux'' ''arm64'' =
       Inl (Error ''Unsupported platform/architecture: linux/arm64'')
   \<and> getLibraryPath sample_resolve ''/app'' ''win32'' ''ia32'' =
       Inl (Error ''Unsupported platform/architecture: win32/ia32'')"
  using getLibraryPath_cases [where platform = "''linux''" and arch = "''x64''"
      and resolve = sample_resolve and dirname = "''/app''"]
    getLibraryPath_cases [where platform = "''darwin''" and arch = "''arm64''"
      and resolve = sample_resolve and dirname = "''/app''"]
    getLibraryPath_cases [where platform = "''darwin''" and arch = "''x64''"
      and resolve = sample_resolve and dirname = "''/app''"]
    getLibraryPath_cases [where platform = "''win32''" and arch = "''x64''"
      and resolve = sample_resolve and dirname = "''/app''"]
    getLibraryPath_cases [where platform = "''linux''" and arch = "''arm64''"
      and resolve = sample_resolve and dirname = "''/app''"]
    getLibraryPath_cases [where platform = "''win32''" and arch = "''ia32''"
      and resolve = sample_resolve and dirname = "''/app''"]
  by simp

end
